theory Spec2Isabelle
  imports Complex_Main "HOL-Library.Sublist"
begin

section \<open>Python values, errors and string primitives\<close>

text \<open>
  The services are Python. Exceptions are values of \<open>py_error\<close>, a call that may raise
  returns \<open>py_error + 'a\<close> (\<open>Inl\<close> the exception). Strings are lists of characters with
  code points below 256; scores and vector components are idealised as reals (no rounding,
  no NaN).
\<close>

datatype py_error =
    KeyError string
  | IndexError string
  | ValueError string
  | AttributeError string
  | ValidationError string
  | RuntimeError string
  | DatabaseError string

fun str_of_error :: "py_error \<Rightarrow> string" where
  "str_of_error (KeyError k) = [CHR 0x27] @ k @ [CHR 0x27]"
| "str_of_error (IndexError m) = m"
| "str_of_error (ValueError m) = m"
| "str_of_error (AttributeError m) = m"
| "str_of_error (ValidationError m) = m"
| "str_of_error (RuntimeError m) = m"
| "str_of_error (DatabaseError m) = m"

datatype pyval = PNone | PStr string | PList "string list" | PNum real | PBool bool

text \<open>Truth value of an object, as \<open>if x:\<close> tests it.\<close>

fun truthy :: "pyval \<Rightarrow> bool" where
  "truthy PNone = False"
| "truthy (PStr s) = (s \<noteq> [])"
| "truthy (PList l) = (l \<noteq> [])"
| "truthy (PNum x) = (x \<noteq> 0)"
| "truthy (PBool b) = b"

type_synonym pydict = "(string \<times> pyval) list"

text \<open>\<open>d.get(k)\<close> and \<open>d.get(k, default)\<close>: the default only when the key is absent.\<close>

definition dict_get :: "pydict \<Rightarrow> string \<Rightarrow> pyval" where
  "dict_get d k = (case map_of d k of None \<Rightarrow> PNone | Some v \<Rightarrow> v)"

definition dict_get_default :: "pydict \<Rightarrow> string \<Rightarrow> pyval \<Rightarrow> pyval" where
  "dict_get_default d k dflt = (case map_of d k of None \<Rightarrow> dflt | Some v \<Rightarrow> v)"

text \<open>\<open>str.isspace\<close> on one character (code points below 256).\<close>

definition is_space :: "char \<Rightarrow> bool" where
  "is_space c = (c \<in> set [CHR 0x09, CHR 0x0A, CHR 0x0B, CHR 0x0C, CHR 0x0D,
                           CHR 0x1C, CHR 0x1D, CHR 0x1E, CHR 0x1F, CHR 0x20,
                           CHR 0x85, CHR 0xA0])"

text \<open>\<open>str.lower\<close>: ASCII and Latin-1 capitals move up by 32, everything else stays.\<close>

definition lower_char :: "char \<Rightarrow> char" where
  "lower_char c =
     (let n = (of_char c :: nat)
      in if (65 \<le> n \<and> n \<le> 90) \<or> (192 \<le> n \<and> n \<le> 222 \<and> n \<noteq> 215)
         then char_of (n + 32) else c)"

definition py_lower :: "string \<Rightarrow> string" where
  "py_lower s = map lower_char s"

text \<open>\<open>s.split()\<close>: maximal runs of non-space characters, in order.\<close>

fun py_split_acc :: "string \<Rightarrow> string \<Rightarrow> string list" where
  "py_split_acc w [] = (if w = [] then [] else [w])"
| "py_split_acc w (c # cs) =
     (if is_space c
      then (if w = [] then py_split_acc [] cs else w # py_split_acc [] cs)
      else py_split_acc (w @ [c]) cs)"

definition py_split :: "string \<Rightarrow> string list" where
  "py_split s = py_split_acc [] s"

text \<open>\<open>' '.join(ws)\<close>.\<close>

fun py_join :: "string list \<Rightarrow> string" where
  "py_join [] = []"
| "py_join [w] = w"
| "py_join (w # v # ws) = w @ CHR 0x20 # py_join (v # ws)"

text \<open>
  \<open>xs[i:j]\<close> with integer bounds: a negative bound counts from the end, both bounds are
  clamped to the list, and an empty range gives the empty list.
\<close>

definition slice_bound :: "'a list \<Rightarrow> int \<Rightarrow> nat" where
  "slice_bound xs k =
     (if k < 0 then nat (max 0 (int (length xs) + k)) else min (nat k) (length xs))"

definition py_slice :: "'a list \<Rightarrow> int \<Rightarrow> int \<Rightarrow> 'a list" where
  "py_slice xs i j = take (slice_bound xs j - slice_bound xs i) (drop (slice_bound xs i) xs)"

text \<open>\<open>xs[:j]\<close>.\<close>

definition py_slice_to :: "'a list \<Rightarrow> int \<Rightarrow> 'a list" where
  "py_slice_to xs j = take (slice_bound xs j) xs"

text \<open>
  \<open>s.find(w)\<close>: the lowest index at which \<open>w\<close> starts in \<open>s\<close>, or \<open>-1\<close>; and
  \<open>w in s\<close>, which holds exactly when \<open>find\<close> does not answer \<open>-1\<close>.
\<close>

fun find_from :: "string \<Rightarrow> string \<Rightarrow> nat \<Rightarrow> int" where
  "find_from w [] i = (if w = [] then int i else - 1)"
| "find_from w (c # cs) i = (if prefix w (c # cs) then int i else find_from w cs (Suc i))"

definition py_find :: "string \<Rightarrow> string \<Rightarrow> int" where
  "py_find s w = find_from w s 0"

definition py_in :: "string \<Rightarrow> string \<Rightarrow> bool" where
  "py_in w s = (py_find s w \<noteq> - 1)"

section \<open>Configuration (app/core/config.py)\<close>

record settings =
  CHUNK_SIZE :: int
  CHUNK_OVERLAP :: int
  BATCH_SIZE :: int

definition default_settings :: settings where
  "default_settings = \<lparr> CHUNK_SIZE = 1000, CHUNK_OVERLAP = 200, BATCH_SIZE = 100 \<rparr>"

section \<open>Embedding service: splitting full text into chunks\<close>

text \<open>
  One pass of the \<open>while\<close> loop of \<open>_split_text_into_chunks\<close>: the chunk it appends
  and the next value of \<open>start\<close>.
\<close>

definition chunk_end :: "int \<Rightarrow> string list \<Rightarrow> int \<Rightarrow> int" where
  "chunk_end chunk_size words start = min (start + chunk_size) (int (length words))"

definition chunk_at :: "int \<Rightarrow> string list \<Rightarrow> int \<Rightarrow> string" where
  "chunk_at chunk_size words start =
     py_join (py_slice words start (chunk_end chunk_size words start))"

definition next_start :: "int \<Rightarrow> int \<Rightarrow> string list \<Rightarrow> int \<Rightarrow> int" where
  "next_start chunk_size overlap words start =
     (let e = chunk_end chunk_size words start
      in if e < int (length words) then e - overlap else e)"

text \<open>
  The loop itself. Nothing in the source bounds the number of passes, so the loop is a
  partial function: \<open>None\<close> stands for a loop that never leaves.
\<close>

partial_function (option) chunk_loop ::
  "int \<Rightarrow> int \<Rightarrow> string list \<Rightarrow> int \<Rightarrow> string list \<Rightarrow> string list option" where
  "chunk_loop chunk_size overlap words start chunks =
     (if start < int (length words)
      then chunk_loop chunk_size overlap words
             (next_start chunk_size overlap words start)
             (chunks @ [chunk_at chunk_size words start])
      else Some chunks)"

definition split_text_into_chunks :: "settings \<Rightarrow> string \<Rightarrow> string list option" where
  "split_text_into_chunks cfg text =
     chunk_loop (CHUNK_SIZE cfg) (CHUNK_OVERLAP cfg) (py_split text) 0 []"

section \<open>RAG service: highlight snippets\<close>

text \<open>
  The body of the \<open>if word in content_lower\<close> branch of \<open>_generate_highlight\<close>: the
  window around \<open>start_pos\<close> and the two ellipsis markers.
\<close>

definition snippet_around :: "string \<Rightarrow> int \<Rightarrow> string" where
  "snippet_around content start_pos =
     (let snippet_start = max 0 (start_pos - 50);
          snippet_end = min (int (length content)) (start_pos + 200);
          snippet = py_slice content snippet_start snippet_end;
          snippet1 = (if snippet_start > 0 then ''...'' @ snippet else snippet);
          snippet2 = (if snippet_end < int (length content) then snippet1 @ ''...'' else snippet1)
      in snippet2)"

text \<open>The \<open>for word in query_words\<close> loop: it returns at the first word found.\<close>

fun highlight_loop :: "string list \<Rightarrow> string \<Rightarrow> string \<Rightarrow> string option" where
  "highlight_loop [] content content_lower = None"
| "highlight_loop (word # query_words) content content_lower =
     (if py_in word content_lower
      then Some (snippet_around content (py_find content_lower word))
      else highlight_loop query_words content content_lower)"

text \<open>\<open>content[:200] + "..." if len(content) > 200 else content\<close>.\<close>

definition first_200 :: "string \<Rightarrow> string" where
  "first_200 content =
     (if length content > 200 then py_slice_to content 200 @ ''...'' else content)"

text \<open>
  \<open>_generate_highlight\<close>. On strings no operation of its \<open>try\<close> block raises, so the
  \<open>except\<close> branch (which returns the same fallback) is never entered.
\<close>

definition generate_highlight :: "string \<Rightarrow> string \<Rightarrow> string" where
  "generate_highlight content query =
     (let query_words = py_split (py_lower query);
          content_lower = py_lower content
      in case highlight_loop query_words content content_lower of
           Some snippet \<Rightarrow> snippet
         | None \<Rightarrow> first_200 content)"


definition is_word :: "string \<Rightarrow> bool" where
  "is_word w = (w \<noteq> [] \<and> (\<forall>c\<in>set w. \<not> is_space c))"

section \<open>Papers table and vector store collection\<close>

text \<open>
  The columns of \<open>papers\<close> that the services read or write. \<open>session.get(Paper, id)\<close>
  is a lookup by primary key; a failing database call is an exception.
\<close>

record paper =
  p_id :: string
  p_pmid :: "string option"
  p_doi :: "string option"
  p_title :: string
  p_processing_status :: string
  p_embedding_generated :: bool
  p_quality_score :: real

text \<open>The metadata that \<open>store_embeddings\<close> attaches to every row of the collection.\<close>

record row_metadata =
  md_paper_id :: string
  md_content_type :: string
  md_chunk_index :: "nat option"
  md_model_name :: string

text \<open>One row of an answer of \<open>collection.query\<close>: metadata, document and distance.\<close>

record chroma_row =
  row_metadata :: row_metadata
  row_document :: string
  row_distance :: real

text \<open>The dict that \<open>search_similar_papers\<close> builds for a row above the threshold.\<close>

record hit =
  hit_paper_id :: string
  hit_content :: string
  hit_similarity_score :: real
  hit_metadata :: row_metadata

text \<open>
  \<open>search_similar_papers\<close>: the collection's answer (an exception of the collection is
  logged and raised again), each distance turned into \<open>1 - distance\<close>, and the rows
  with a similarity at or above the threshold kept, in the collection's order.
\<close>

definition hit_of_row :: "chroma_row \<Rightarrow> hit" where
  "hit_of_row r =
     \<lparr> hit_paper_id = md_paper_id (row_metadata r),
       hit_content = row_document r,
       hit_similarity_score = 1 - row_distance r,
       hit_metadata = row_metadata r \<rparr>"

definition search_similar_papers ::
  "(real list \<Rightarrow> string \<Rightarrow> int \<Rightarrow> py_error + chroma_row list) \<Rightarrow>
   real list \<Rightarrow> string \<Rightarrow> int \<Rightarrow> real \<Rightarrow> py_error + hit list" where
  "search_similar_papers collection_query query_embedding content_type top_k threshold =
     (case collection_query query_embedding content_type top_k of
        Inl e \<Rightarrow> Inl e
      | Inr rows \<Rightarrow>
          Inr (map hit_of_row (filter (\<lambda>r. 1 - row_distance r \<ge> threshold) rows)))"

section \<open>RAG service: search\<close>

datatype SearchType = NATURAL_LANGUAGE | KEYWORD | MESH_TERM

record search_request =
  sr_query :: string
  sr_search_type :: SearchType
  sr_max_results :: int
  sr_min_confidence_score :: real
  sr_include_full_text :: bool

text \<open>
  What the search calls outside itself: the embedding model, the collection, the papers
  table with its failures, the verdict of \<open>_apply_filters\<close> on a paper for the filters of
  the request (that method catches every exception itself and answers a boolean), and the
  two readings of the clock.
\<close>

record search_env =
  embed_text :: "string \<Rightarrow> py_error + real list"
  embed_keywords :: "string list \<Rightarrow> py_error + real list list"
  collection_query :: "real list \<Rightarrow> string \<Rightarrow> int \<Rightarrow> py_error + chroma_row list"
  papers :: "paper list"
  session_get_error :: "string \<Rightarrow> py_error option"
  apply_filters :: "paper \<Rightarrow> bool"
  time_start :: real
  time_end :: real

definition session_get :: "search_env \<Rightarrow> string \<Rightarrow> py_error + paper option" where
  "session_get env pid =
     (case session_get_error env pid of
        Some e \<Rightarrow> Inl e
      | None \<Rightarrow> Inr (find (\<lambda>p. p_id p = pid) (papers env)))"

text \<open>
  The keyword branch averages the keyword vectors component by component, over the
  length of the first vector: no first vector, or a shorter later vector, is an IndexError.
\<close>

definition mean_pool :: "real list list \<Rightarrow> py_error + real list" where
  "mean_pool keyword_embeddings =
     (case keyword_embeddings of
        [] \<Rightarrow> Inl (IndexError ''list index out of range'')
      | e0 # _ \<Rightarrow>
          if \<forall>emb\<in>set keyword_embeddings. length e0 \<le> length emb
          then Inr (map (\<lambda>i. (\<Sum>emb\<leftarrow>keyword_embeddings. emb ! i) /
                              real (length keyword_embeddings)) [0..<length e0])
          else Inl (IndexError ''list index out of range''))"

definition embed_search_query :: "search_env \<Rightarrow> search_request \<Rightarrow> py_error + real list" where
  "embed_search_query env req =
     (case sr_search_type req of
        NATURAL_LANGUAGE \<Rightarrow> embed_text env (sr_query req)
      | KEYWORD \<Rightarrow>
          (case embed_keywords env (py_split (sr_query req)) of
             Inl e \<Rightarrow> Inl e
           | Inr keyword_embeddings \<Rightarrow> mean_pool keyword_embeddings)
      | MESH_TERM \<Rightarrow> embed_text env (sr_query req))"

text \<open>
  The dicts appended to \<open>search_results\<close> are written with exactly five keys. They are a
  record here; subscripting one with a string goes through \<open>merged_getitem\<close>, which
  knows those five keys and raises KeyError for any other.
\<close>

record merged =
  m_paper_id :: string
  m_content_type :: string
  m_content :: string
  m_similarity_score :: real
  m_metadata :: row_metadata

datatype sval = SStr string | SNum real | SMeta row_metadata | SDict "(string \<times> sval) list"

definition merged_getitem :: "merged \<Rightarrow> string \<Rightarrow> py_error + sval" where
  "merged_getitem r k =
     (if k = ''paper_id'' then Inr (SStr (m_paper_id r))
      else if k = ''content_type'' then Inr (SStr (m_content_type r))
      else if k = ''content'' then Inr (SStr (m_content r))
      else if k = ''similarity_score'' then Inr (SNum (m_similarity_score r))
      else if k = ''metadata'' then Inr (SMeta (m_metadata r))
      else Inl (KeyError k))"

definition metadata_getitem :: "row_metadata \<Rightarrow> string \<Rightarrow> py_error + sval" where
  "metadata_getitem md k =
     (if k = ''paper_id'' then Inr (SStr (md_paper_id md))
      else if k = ''content_type'' then Inr (SStr (md_content_type md))
      else if k = ''model_name'' then Inr (SStr (md_model_name md))
      else if k = ''chunk_index'' \<and> md_chunk_index md \<noteq> None
        then Inr (SNum (real (the (md_chunk_index md))))
      else Inl (KeyError k))"

fun sval_getitem :: "sval \<Rightarrow> string \<Rightarrow> py_error + sval" where
  "sval_getitem (SDict d) k = (case map_of d k of None \<Rightarrow> Inl (KeyError k) | Some v \<Rightarrow> Inr v)"
| "sval_getitem (SMeta md) k = metadata_getitem md k"
| "sval_getitem (SStr s) k = Inl (ValueError ''string indices must be integers'')"
| "sval_getitem (SNum x) k = Inl (ValueError ''float object is not subscriptable'')"

text \<open>
  \<open>any(r['paper']['id'] == paper_id for r in search_results)\<close>: the entries are tested
  in order, the first true test ends the scan, and an exception of a test leaves it.
\<close>

fun any_same_paper :: "merged list \<Rightarrow> string \<Rightarrow> py_error + bool" where
  "any_same_paper [] paper_id = Inr False"
| "any_same_paper (r # rs) paper_id =
     (case merged_getitem r ''paper'' of
        Inl e \<Rightarrow> Inl e
      | Inr v \<Rightarrow>
          (case sval_getitem v ''id'' of
             Inl e \<Rightarrow> Inl e
           | Inr i \<Rightarrow> if i = SStr paper_id then Inr True else any_same_paper rs paper_id))"

definition merged_of_hit :: "string \<Rightarrow> hit \<Rightarrow> merged" where
  "merged_of_hit content_type result =
     \<lparr> m_paper_id = hit_paper_id result,
       m_content_type = content_type,
       m_content = hit_content result,
       m_similarity_score = hit_similarity_score result,
       m_metadata = hit_metadata result \<rparr>"

text \<open>The inner loop \<open>for result in results\<close>.\<close>

fun add_results :: "string \<Rightarrow> hit list \<Rightarrow> merged list \<Rightarrow> py_error + merged list" where
  "add_results content_type [] search_results = Inr search_results"
| "add_results content_type (result # results) search_results =
     (case any_same_paper search_results (hit_paper_id result) of
        Inl e \<Rightarrow> Inl e
      | Inr found \<Rightarrow>
          add_results content_type results
            (if \<not> found then search_results @ [merged_of_hit content_type result]
             else search_results))"

definition content_types :: "search_request \<Rightarrow> string list" where
  "content_types req =
     (if sr_include_full_text req then [''title'', ''abstract''] @ [''chunk'']
      else [''title'', ''abstract''])"

text \<open>The outer loop \<open>for content_type in content_types\<close>.\<close>

fun fan_out ::
  "search_env \<Rightarrow> search_request \<Rightarrow> real list \<Rightarrow> string list \<Rightarrow> merged list \<Rightarrow>
   py_error + merged list" where
  "fan_out env req query_embedding [] search_results = Inr search_results"
| "fan_out env req query_embedding (content_type # cts) search_results =
     (case search_similar_papers (collection_query env) query_embedding content_type
             (sr_max_results req) (sr_min_confidence_score req) of
        Inl e \<Rightarrow> Inl e
      | Inr results \<Rightarrow>
          (case add_results content_type results search_results of
             Inl e \<Rightarrow> Inl e
           | Inr search_results' \<Rightarrow> fan_out env req query_embedding cts search_results'))"

text \<open>
  \<open>search_results.sort(key=..., reverse=True)\<close> is a stable sort into descending score;
  \<open>search_results[:max_results]\<close> follows.
\<close>

definition sort_by_score :: "merged list \<Rightarrow> merged list" where
  "sort_by_score search_results = sort_key (\<lambda>x. - m_similarity_score x) search_results"

record search_result =
  res_paper :: paper
  res_relevance_score :: real
  res_highlight :: "string option"

text \<open>The schema of a search result admits relevance scores from 0 to 1 only.\<close>

definition make_search_result ::
  "paper \<Rightarrow> real \<Rightarrow> string option \<Rightarrow> py_error + search_result" where
  "make_search_result pap score highlight =
     (if 0 \<le> score \<and> score \<le> 1
      then Inr \<lparr> res_paper = pap, res_relevance_score = score, res_highlight = highlight \<rparr>
      else Inl (ValidationError ''relevance_score''))"

text \<open>The loop that loads each paper, filters it and builds its result.\<close>

fun hydrate :: "search_env \<Rightarrow> search_request \<Rightarrow> merged list \<Rightarrow> py_error + search_result list" where
  "hydrate env req [] = Inr []"
| "hydrate env req (result # rest) =
     (case session_get env (m_paper_id result) of
        Inl e \<Rightarrow> Inl e
      | Inr None \<Rightarrow> hydrate env req rest
      | Inr (Some pap) \<Rightarrow>
          if apply_filters env pap
          then (case make_search_result pap (m_similarity_score result)
                       (Some (generate_highlight (m_content result) (sr_query req))) of
                  Inl e \<Rightarrow> Inl e
                | Inr search_result \<Rightarrow>
                    (case hydrate env req rest of
                       Inl e \<Rightarrow> Inl e
                     | Inr paper_results \<Rightarrow> Inr (search_result # paper_results)))
          else hydrate env req rest)"

text \<open>The \<open>try\<close> block of \<open>search_papers\<close>, up to the list of results.\<close>

definition search_pipeline :: "search_env \<Rightarrow> search_request \<Rightarrow> py_error + search_result list" where
  "search_pipeline env req =
     (case embed_search_query env req of
        Inl e \<Rightarrow> Inl e
      | Inr query_embedding \<Rightarrow>
          (case fan_out env req query_embedding (content_types req) [] of
             Inl e \<Rightarrow> Inl e
           | Inr search_results \<Rightarrow>
               hydrate env req
                 (py_slice_to (sort_by_score search_results) (sr_max_results req))))"

record search_response =
  resp_query :: string
  resp_results :: "search_result list"
  resp_total_results :: int
  resp_execution_time_ms :: int
  resp_query_type :: SearchType

text \<open>\<open>int(x)\<close> on a float truncates towards zero.\<close>

definition py_int :: "real \<Rightarrow> int" where
  "py_int x = (if 0 \<le> x then \<lfloor>x\<rfloor> else \<lceil>x\<rceil>)"

definition execution_time :: "search_env \<Rightarrow> int" where
  "execution_time env = py_int ((time_end env - time_start env) * 1000)"

text \<open>\<open>search_papers\<close>: the \<open>try\<close> block and its \<open>except Exception\<close> handler.\<close>

definition search_papers :: "search_env \<Rightarrow> search_request \<Rightarrow> search_response" where
  "search_papers env req =
     (case search_pipeline env req of
        Inr paper_results \<Rightarrow>
          \<lparr> resp_query = sr_query req,
            resp_results = paper_results,
            resp_total_results = int (length paper_results),
            resp_execution_time_ms = execution_time env,
            resp_query_type = sr_search_type req \<rparr>
      | Inl e \<Rightarrow>
          \<lparr> resp_query = sr_query req,
            resp_results = [],
            resp_total_results = 0,
            resp_execution_time_ms = execution_time env,
            resp_query_type = sr_search_type req \<rparr>)"



definition empty_response :: "search_env \<Rightarrow> search_request \<Rightarrow> search_response" where
  "empty_response env req =
     \<lparr> resp_query = sr_query req,
       resp_results = [],
       resp_total_results = 0,
       resp_execution_time_ms = py_int ((time_end env - time_start env) * 1000),
       resp_query_type = sr_search_type req \<rparr>"

text \<open>
  Two stores used as worked examples. In the first, one paper scores 0.82 on its abstract
  and 0.91 on a full-text chunk. In the second, one paper scores 0.6 on its title and 0.95
  on its abstract.
\<close>

definition diabetes_paper :: paper where
  "diabetes_paper =
     \<lparr> p_id = ''p1'', p_pmid = Some ''101'', p_doi = None,
       p_title = ''Diabetes treatment outcomes'',
       p_processing_status = ''processed'', p_embedding_generated = True,
       p_quality_score = 0.7 \<rparr>"

definition row_for :: "string \<Rightarrow> string \<Rightarrow> real \<Rightarrow> chroma_row" where
  "row_for content_type document distance =
     \<lparr> row_metadata = \<lparr> md_paper_id = ''p1'', md_content_type = content_type,
                          md_chunk_index = None, md_model_name = ''sentence-transformer'' \<rparr>,
       row_document = document, row_distance = distance \<rparr>"

definition abstract_chunk_env :: search_env where
  "abstract_chunk_env =
     \<lparr> embed_text = (\<lambda>s. Inr [1, 0]),
       embed_keywords = (\<lambda>ks. Inr (map (\<lambda>k. [1, 0]) ks)),
       collection_query = (\<lambda>q ct k.
          if ct = ''abstract'' then Inr [row_for ''abstract'' ''diabetes treatment abstract'' 0.18]
          else if ct = ''chunk'' then Inr [row_for ''chunk'' ''diabetes treatment chunk'' 0.09]
          else Inr []),
       papers = [diabetes_paper],
       session_get_error = (\<lambda>pid. None),
       apply_filters = (\<lambda>p. True),
       time_start = 10, time_end = 10.25 \<rparr>"

definition title_abstract_env :: search_env where
  "title_abstract_env =
     \<lparr> embed_text = (\<lambda>s. Inr [1, 0]),
       embed_keywords = (\<lambda>ks. Inr (map (\<lambda>k. [1, 0]) ks)),
       collection_query = (\<lambda>q ct k.
          if ct = ''title'' then Inr [row_for ''title'' ''Diabetes treatment outcomes'' 0.4]
          else if ct = ''abstract'' then Inr [row_for ''abstract'' ''diabetes treatment abstract'' 0.05]
          else Inr []),
       papers = [diabetes_paper],
       session_get_error = (\<lambda>pid. None),
       apply_filters = (\<lambda>p. True),
       time_start = 10, time_end = 10.25 \<rparr>"

definition diabetes_request :: search_request where
  "diabetes_request =
     \<lparr> sr_query = ''diabetes treatment'', sr_search_type = NATURAL_LANGUAGE,
       sr_max_results = 10, sr_min_confidence_score = 0.7,
       sr_include_full_text = False \<rparr>"

section \<open>Bulk ingestion: duplicate detection\<close>

text \<open>
  The three SELECT statements of \<open>_check_duplicate\<close>, with their parameter. The session
  holds the papers table; \<open>execute_error\<close> says which statements fail. A parameter that is
  not a string is refused by the database with an error. MD5 is a parameter of the model:
  the same function in Python (\<open>hashlib.md5(...).hexdigest()\<close>) and in SQL (\<open>MD5\<close>).
\<close>

datatype dup_query = ByPmid pyval | ByDoi pyval | ByTitleHash string

record db_session =
  table :: "paper list"
  execute_error :: "dup_query \<Rightarrow> py_error option"

text \<open>\<open>bool(existing.fetchone())\<close> for a statement: is there a row.\<close>

fun rows_exist :: "(string \<Rightarrow> string) \<Rightarrow> paper list \<Rightarrow> dup_query \<Rightarrow> py_error + bool" where
  "rows_exist md5 tbl (ByPmid (PStr s)) = Inr (\<exists>p\<in>set tbl. p_pmid p = Some s)"
| "rows_exist md5 tbl (ByPmid v) = Inl (DatabaseError ''invalid input for query argument'')"
| "rows_exist md5 tbl (ByDoi (PStr s)) = Inr (\<exists>p\<in>set tbl. p_doi p = Some s)"
| "rows_exist md5 tbl (ByDoi v) = Inl (DatabaseError ''invalid input for query argument'')"
| "rows_exist md5 tbl (ByTitleHash h) =
     Inr (\<exists>p\<in>set tbl. take 8 (md5 (py_lower (p_title p))) = h)"

definition execute :: "(string \<Rightarrow> string) \<Rightarrow> db_session \<Rightarrow> dup_query \<Rightarrow> py_error + bool" where
  "execute md5 session q =
     (case execute_error session q of
        Some e \<Rightarrow> Inl e
      | None \<Rightarrow> rows_exist md5 (table session) q)"

text \<open>\<open>paper_data.get('title', '').lower()\<close>: only a string has \<open>lower\<close>.\<close>

definition title_lower :: "pydict \<Rightarrow> py_error + string" where
  "title_lower paper_data =
     (case dict_get_default paper_data ''title'' (PStr []) of
        PStr t \<Rightarrow> Inr (py_lower t)
      | _ \<Rightarrow> Inl (AttributeError ''lower''))"

text \<open>The \<open>try\<close> block of \<open>_check_duplicate\<close>, one check after the other.\<close>

definition check_by_title :: "(string \<Rightarrow> string) \<Rightarrow> db_session \<Rightarrow> pydict \<Rightarrow> py_error + bool" where
  "check_by_title md5 session paper_data =
     (case title_lower paper_data of
        Inl e \<Rightarrow> Inl e
      | Inr t \<Rightarrow> execute md5 session (ByTitleHash (py_slice_to (md5 t) 8)))"

definition check_by_doi :: "(string \<Rightarrow> string) \<Rightarrow> db_session \<Rightarrow> pydict \<Rightarrow> py_error + bool" where
  "check_by_doi md5 session paper_data =
     (if truthy (dict_get paper_data ''doi'')
      then (case execute md5 session (ByDoi (dict_get paper_data ''doi'')) of
              Inl e \<Rightarrow> Inl e
            | Inr True \<Rightarrow> Inr True
            | Inr False \<Rightarrow> check_by_title md5 session paper_data)
      else check_by_title md5 session paper_data)"

definition check_by_pmid :: "(string \<Rightarrow> string) \<Rightarrow> db_session \<Rightarrow> pydict \<Rightarrow> py_error + bool" where
  "check_by_pmid md5 session paper_data =
     (if truthy (dict_get paper_data ''pmid'')
      then (case execute md5 session (ByPmid (dict_get paper_data ''pmid'')) of
              Inl e \<Rightarrow> Inl e
            | Inr True \<Rightarrow> Inr True
            | Inr False \<Rightarrow> check_by_doi md5 session paper_data)
      else check_by_doi md5 session paper_data)"

text \<open>\<open>_check_duplicate\<close>: the \<open>try\<close> block, and \<open>False\<close> for any exception.\<close>

definition check_duplicate :: "(string \<Rightarrow> string) \<Rightarrow> db_session \<Rightarrow> pydict \<Rightarrow> bool" where
  "check_duplicate md5 session paper_data =
     (case check_by_pmid md5 session paper_data of
        Inl e \<Rightarrow> False
      | Inr found \<Rightarrow> found)"

text \<open>
  The reading of the three checks that the theorem is stated with: the check is reached
  and skipped or answers "no row".
\<close>

definition pmid_passed :: "(string \<Rightarrow> string) \<Rightarrow> db_session \<Rightarrow> pydict \<Rightarrow> bool" where
  "pmid_passed md5 session paper_data =
     (\<not> truthy (dict_get paper_data ''pmid'') \<or>
      execute md5 session (ByPmid (dict_get paper_data ''pmid'')) = Inr False)"

definition doi_passed :: "(string \<Rightarrow> string) \<Rightarrow> db_session \<Rightarrow> pydict \<Rightarrow> bool" where
  "doi_passed md5 session paper_data =
     (\<not> truthy (dict_get paper_data ''doi'') \<or>
      execute md5 session (ByDoi (dict_get paper_data ''doi'')) = Inr False)"

text \<open>A stand-in for MD5 in worked examples: any function of strings will do there.\<close>

definition toy_md5 :: "string \<Rightarrow> string" where
  "toy_md5 s = rev s @ ''0123456789abcdef''"

definition stored_session :: db_session where
  "stored_session = \<lparr> table = [diabetes_paper], execute_error = (\<lambda>q. None) \<rparr>"

section \<open>Embedding a paper and storing its embeddings\<close>

text \<open>
  What the embedding path calls outside itself: the embedding model on an object
  (\<open>embed_text\<close>), the failures of \<open>collection.add\<close> by document id, and the failures of
  the two status updates of the papers table (load the paper, set the status, commit).
\<close>

record ingest_env =
  embed :: "pyval \<Rightarrow> py_error + real list"
  add_error :: "string \<Rightarrow> py_error option"
  status_write_error :: "string \<Rightarrow> py_error option"

datatype embedding_info = Single "real list" | Chunks "(pyval \<times> real list) list"

text \<open>\<open>if paper_data.get(key): embeddings[key] = await self.embed_text(paper_data[key])\<close>.\<close>

definition embed_field ::
  "(pyval \<Rightarrow> py_error + real list) \<Rightarrow> pydict \<Rightarrow> string \<Rightarrow>
   (string \<times> embedding_info) list \<Rightarrow> py_error + (string \<times> embedding_info) list" where
  "embed_field emb paper_data key embeddings =
     (if truthy (dict_get paper_data key)
      then (case emb (dict_get paper_data key) of
              Inl e \<Rightarrow> Inl e
            | Inr v \<Rightarrow> Inr (embeddings @ [(key, Single v)]))
      else Inr embeddings)"

text \<open>\<open>' '.join(paper_data['mesh_terms'])\<close>: a list is joined, a string is joined
  character by character, anything else is not iterable.\<close>

fun mesh_text :: "pyval \<Rightarrow> py_error + string" where
  "mesh_text (PList l) = Inr (py_join l)"
| "mesh_text (PStr s) = Inr (py_join (map (\<lambda>c. [c]) s))"
| "mesh_text v = Inl (ValueError ''can only join an iterable'')"

definition embed_mesh ::
  "(pyval \<Rightarrow> py_error + real list) \<Rightarrow> pydict \<Rightarrow>
   (string \<times> embedding_info) list \<Rightarrow> py_error + (string \<times> embedding_info) list" where
  "embed_mesh emb paper_data embeddings =
     (if truthy (dict_get paper_data ''mesh_terms'')
      then (case mesh_text (dict_get paper_data ''mesh_terms'') of
              Inl e \<Rightarrow> Inl e
            | Inr t \<Rightarrow>
                (case emb (PStr t) of
                   Inl e \<Rightarrow> Inl e
                 | Inr v \<Rightarrow> Inr (embeddings @ [(''mesh_terms'', Single v)])))
      else Inr embeddings)"

text \<open>
  \<open>_split_text_into_chunks\<close> on any object: on a string the loop above; on anything else
  \<open>text.split()\<close> raises inside its \<open>try\<close>, and the handler answers the object itself as
  the only chunk.
\<close>

fun split_chunks :: "settings \<Rightarrow> pyval \<Rightarrow> pyval list option" where
  "split_chunks cfg (PStr s) = map_option (map PStr) (split_text_into_chunks cfg s)"
| "split_chunks cfg v = Some [v]"

fun embed_chunks ::
  "(pyval \<Rightarrow> py_error + real list) \<Rightarrow> pyval list \<Rightarrow> py_error + (pyval \<times> real list) list" where
  "embed_chunks emb [] = Inr []"
| "embed_chunks emb (chunk # chunks) =
     (case emb chunk of
        Inl e \<Rightarrow> Inl e
      | Inr v \<Rightarrow>
          (case embed_chunks emb chunks of
             Inl e \<Rightarrow> Inl e
           | Inr rest \<Rightarrow> Inr ((chunk, v) # rest)))"

definition embed_full_text ::
  "settings \<Rightarrow> (pyval \<Rightarrow> py_error + real list) \<Rightarrow> pydict \<Rightarrow>
   (string \<times> embedding_info) list \<Rightarrow> (py_error + (string \<times> embedding_info) list) option" where
  "embed_full_text cfg emb paper_data embeddings =
     (if truthy (dict_get paper_data ''full_text'')
      then (case split_chunks cfg (dict_get paper_data ''full_text'') of
              None \<Rightarrow> None
            | Some chunks \<Rightarrow>
                (case embed_chunks emb chunks of
                   Inl e \<Rightarrow> Some (Inl e)
                 | Inr full_text_chunks \<Rightarrow>
                     Some (Inr (embeddings @ [(''full_text_chunks'', Chunks full_text_chunks)]))))
      else Some (Inr embeddings))"

text \<open>
  \<open>generate_paper_embeddings\<close>: title, abstract, MeSH terms, full text, in this order;
  the first exception is logged and raised again. \<open>None\<close> is a chunking loop that never
  leaves.
\<close>

definition generate_paper_embeddings ::
  "settings \<Rightarrow> (pyval \<Rightarrow> py_error + real list) \<Rightarrow> pydict \<Rightarrow>
   (py_error + (string \<times> embedding_info) list) option" where
  "generate_paper_embeddings cfg emb paper_data =
     (case embed_field emb paper_data ''title'' [] of
        Inl e \<Rightarrow> Some (Inl e)
      | Inr e1 \<Rightarrow>
          (case embed_field emb paper_data ''abstract'' e1 of
             Inl e \<Rightarrow> Some (Inl e)
           | Inr e2 \<Rightarrow>
               (case embed_mesh emb paper_data e2 of
                  Inl e \<Rightarrow> Some (Inl e)
                | Inr e3 \<Rightarrow> embed_full_text cfg emb paper_data e3)))"

text \<open>Rows of the collection, and \<open>collection.add\<close> of one row.\<close>

record vs_entry =
  e_id :: string
  e_document :: pyval
  e_embedding :: "real list"
  e_metadata :: row_metadata

definition collection_add ::
  "ingest_env \<Rightarrow> vs_entry list \<Rightarrow> vs_entry \<Rightarrow> vs_entry list \<times> py_error option" where
  "collection_add env store entry =
     (case add_error env (e_id entry) of
        Some e \<Rightarrow> (store, Some e)
      | None \<Rightarrow> (store @ [entry], None))"

text \<open>Decimal digits of a number, as an f-string prints them.\<close>

fun str_of_nat :: "nat \<Rightarrow> string" where
  "str_of_nat n =
     (if n < 10 then [''0123456789'' ! n]
      else str_of_nat (n div 10) @ [''0123456789'' ! (n mod 10)])"

declare str_of_nat.simps [simp del]

definition chunk_entry :: "string \<Rightarrow> string \<Rightarrow> nat \<Rightarrow> pyval \<times> real list \<Rightarrow> vs_entry" where
  "chunk_entry paper_id model_name i chunk_data =
     \<lparr> e_id = paper_id @ ''_'' @ ''chunk'' @ ''_'' @ str_of_nat i,
       e_document = fst chunk_data,
       e_embedding = snd chunk_data,
       e_metadata = \<lparr> md_paper_id = paper_id, md_content_type = ''chunk'',
                       md_chunk_index = Some i, md_model_name = model_name \<rparr> \<rparr>"

definition single_entry :: "string \<Rightarrow> string \<Rightarrow> string \<Rightarrow> pyval \<Rightarrow> real list \<Rightarrow> vs_entry" where
  "single_entry paper_id content_type model_name text embedding =
     \<lparr> e_id = paper_id @ ''_'' @ content_type,
       e_document = text,
       e_embedding = embedding,
       e_metadata = \<lparr> md_paper_id = paper_id, md_content_type = content_type,
                       md_chunk_index = None, md_model_name = model_name \<rparr> \<rparr>"

text \<open>
  \<open>store_embeddings\<close> for chunks: \<open>for i, chunk_data in enumerate(embeddings_data)\<close>.
  Rows added before an exception stay in the collection.
\<close>

fun store_chunks ::
  "ingest_env \<Rightarrow> string \<Rightarrow> string \<Rightarrow> nat \<Rightarrow> (pyval \<times> real list) list \<Rightarrow> vs_entry list \<Rightarrow>
   vs_entry list \<times> py_error option" where
  "store_chunks env paper_id model_name i [] store = (store, None)"
| "store_chunks env paper_id model_name i (chunk_data # rest) store =
     (case collection_add env store (chunk_entry paper_id model_name i chunk_data) of
        (store', Some e) \<Rightarrow> (store', Some e)
      | (store', None) \<Rightarrow> store_chunks env paper_id model_name (Suc i) rest store')"

text \<open>
  The loop of \<open>process_paper_for_rag\<close> over \<open>embeddings_data.items()\<close>: chunk lists go to
  the collection under the content type \<open>chunk\<close>, a single embedding under its key with
  the text \<open>paper_data.get(content_type, '')\<close>.
\<close>

fun store_all ::
  "ingest_env \<Rightarrow> string \<Rightarrow> pydict \<Rightarrow> (string \<times> embedding_info) list \<Rightarrow> vs_entry list \<Rightarrow>
   vs_entry list \<times> py_error option" where
  "store_all env paper_id paper_data [] store = (store, None)"
| "store_all env paper_id paper_data ((content_type, Chunks cs) # rest) store =
     (case store_chunks env paper_id ''sentence-transformer'' 0 cs store of
        (store', Some e) \<Rightarrow> (store', Some e)
      | (store', None) \<Rightarrow> store_all env paper_id paper_data rest store')"
| "store_all env paper_id paper_data ((content_type, Single v) # rest) store =
     (case collection_add env store
             (single_entry paper_id content_type ''sentence-transformer''
                (dict_get_default paper_data content_type (PStr [])) v) of
        (store', Some e) \<Rightarrow> (store', Some e)
      | (store', None) \<Rightarrow> store_all env paper_id paper_data rest store')"

record rag_state =
  rs_papers :: "paper list"
  rs_store :: "vs_entry list"

text \<open>
  A status update in a session of its own: load the paper by id, and when there is one,
  change it and commit. A failure of the database leaves the table as it was.
\<close>

definition update_paper ::
  "ingest_env \<Rightarrow> string \<Rightarrow> string \<Rightarrow> (paper \<Rightarrow> paper) \<Rightarrow> paper list \<Rightarrow>
   paper list \<times> py_error option" where
  "update_paper env new_status paper_id change tbl =
     (case status_write_error env new_status of
        Some e \<Rightarrow> (tbl, Some e)
      | None \<Rightarrow> (map (\<lambda>p. if p_id p = paper_id then change p else p) tbl, None))"

definition mark_processed :: "paper \<Rightarrow> paper" where
  "mark_processed p = p\<lparr>p_embedding_generated := True, p_processing_status := ''processed''\<rparr>"

definition mark_failed :: "paper \<Rightarrow> paper" where
  "mark_failed p = p\<lparr>p_processing_status := ''failed''\<rparr>"

text \<open>
  The \<open>except\<close> handler of \<open>process_paper_for_rag\<close>: the status becomes \<open>failed\<close> and
  the exception is raised again; a failure of that update is raised in its place.
\<close>

definition rag_failed ::
  "ingest_env \<Rightarrow> string \<Rightarrow> py_error \<Rightarrow> rag_state \<Rightarrow> rag_state \<times> py_error option" where
  "rag_failed env paper_id e st =
     (case update_paper env ''failed'' paper_id mark_failed (rs_papers st) of
        (tbl, Some e2) \<Rightarrow> (st\<lparr>rs_papers := tbl\<rparr>, Some e2)
      | (tbl, None) \<Rightarrow> (st\<lparr>rs_papers := tbl\<rparr>, Some e))"

text \<open>
  \<open>process_paper_for_rag\<close>. The answer is the new state and the exception raised, if
  any; \<open>None\<close> is a call that never returns.
\<close>

definition process_paper_for_rag ::
  "settings \<Rightarrow> ingest_env \<Rightarrow> rag_state \<Rightarrow> string \<Rightarrow> pydict \<Rightarrow>
   (rag_state \<times> py_error option) option" where
  "process_paper_for_rag cfg env st paper_id paper_data =
     (case generate_paper_embeddings cfg (embed env) paper_data of
        None \<Rightarrow> None
      | Some (Inl e) \<Rightarrow> Some (rag_failed env paper_id e st)
      | Some (Inr embeddings_data) \<Rightarrow>
          (case store_all env paper_id paper_data embeddings_data (rs_store st) of
             (store', Some e) \<Rightarrow> Some (rag_failed env paper_id e (st\<lparr>rs_store := store'\<rparr>))
           | (store', None) \<Rightarrow>
               (case update_paper env ''processed'' paper_id mark_processed (rs_papers st) of
                  (tbl, Some e) \<Rightarrow> Some (rag_failed env paper_id e (st\<lparr>rs_store := store'\<rparr>))
                | (tbl, None) \<Rightarrow> Some (st\<lparr>rs_papers := tbl, rs_store := store'\<rparr>, None))))"




definition working_env :: ingest_env where
  "working_env =
     \<lparr> embed = (\<lambda>v. Inr [1, 0]), add_error = (\<lambda>d. None), status_write_error = (\<lambda>s. None) \<rparr>"

section \<open>Bulk ingestion: jobs and batches\<close>

text \<open>
  A row of \<open>ingestion_jobs\<close>, with the columns the service writes. An entry of the
  \<open>errors\<close> column is either the message of a paper, \<open>Paper <pmid>: <exception>\<close>, kept
  as its two parts, or the message of the exception that ended the job.
\<close>

datatype job_error = PaperError pyval py_error | JobError py_error

record job =
  j_id :: string
  j_job_name :: string
  j_source :: string
  j_status :: string
  j_progress_percentage :: real
  j_total_documents :: int
  j_processed_documents :: int
  j_successful_documents :: int
  j_failed_documents :: int
  j_duplicate_documents :: int
  j_errors :: "job_error list"
  j_started_at :: "real option"
  j_completed_at :: "real option"

record bulk_request =
  source_database :: string
  subject_areas :: "string list"
  quality_threshold :: real

text \<open>
  What ingestion calls outside itself: the embedding path's environment, MD5, the failures
  of the duplicate queries, of the flush that creates a paper and of the commit that ends a
  paper, the id given to a new paper, the PubMed fetch, and the failures of the statements
  on the jobs table (by kind: insert, status, progress, completion, select).
\<close>

record batch_env =
  rag_env :: ingest_env
  md5_hex :: "string \<Rightarrow> string"
  dup_execute_error :: "dup_query \<Rightarrow> py_error option"
  flush_error :: "pydict \<Rightarrow> py_error option"
  commit_error :: "pydict \<Rightarrow> py_error option"
  new_paper_id :: "nat \<Rightarrow> string"
  bulk_search_and_fetch :: "bulk_request \<Rightarrow> py_error + pydict list"
  job_db_error :: "string \<Rightarrow> py_error option"

text \<open>
  The service: the in-memory \<open>active_jobs\<close> dict, the jobs table, and the papers table
  with the collection. Rollbacks of the papers session are not modelled: the table shows
  the rows the session has written.
\<close>

record service =
  active_jobs :: "string \<rightharpoonup> job"
  job_store :: "job list"
  world :: rag_state

definition new_job :: "string \<Rightarrow> string \<Rightarrow> bulk_request \<Rightarrow> job" where
  "new_job job_id job_name request =
     \<lparr> j_id = job_id, j_job_name = job_name, j_source = source_database request,
       j_status = ''pending'', j_progress_percentage = 0, j_total_documents = 0,
       j_processed_documents = 0, j_successful_documents = 0, j_failed_documents = 0,
       j_duplicate_documents = 0, j_errors = [], j_started_at = None, j_completed_at = None \<rparr>"

text \<open>
  \<open>start_bulk_ingestion\<close>, with the generated job id as a parameter: the row is added
  and committed (an exception is logged and raised again), the job is put into
  \<open>active_jobs\<close>, the execution is scheduled as a task, and the id is returned.
\<close>

definition start_bulk_ingestion ::
  "batch_env \<Rightarrow> service \<Rightarrow> string \<Rightarrow> string \<Rightarrow> bulk_request \<Rightarrow> py_error + (string \<times> service)" where
  "start_bulk_ingestion env svc job_id job_name request =
     (case job_db_error env ''insert'' of
        Some e \<Rightarrow> Inl e
      | None \<Rightarrow>
          if \<exists>j\<in>set (job_store svc). j_id j = job_id
          then Inl (DatabaseError ''duplicate key value violates unique constraint'')
          else Inr (job_id,
                    svc\<lparr> job_store := job_store svc @ [new_job job_id job_name request],
                         active_jobs := (active_jobs svc)(job_id \<mapsto> new_job job_id job_name request) \<rparr>))"

text \<open>The three UPDATE helpers. Each one logs an exception and returns.\<close>

definition update_rows :: "string \<Rightarrow> (job \<Rightarrow> job) \<Rightarrow> job list \<Rightarrow> job list" where
  "update_rows job_id change rows = map (\<lambda>j. if j_id j = job_id then change j else j) rows"

definition update_job_status ::
  "batch_env \<Rightarrow> service \<Rightarrow> string \<Rightarrow> string \<Rightarrow> real option \<Rightarrow> service" where
  "update_job_status env svc job_id status started_at =
     (case job_db_error env ''status'' of
        Some e \<Rightarrow> svc
      | None \<Rightarrow>
          svc\<lparr> job_store := update_rows job_id
                 (\<lambda>j. j\<lparr> j_status := status,
                           j_started_at := (case started_at of
                                              None \<Rightarrow> j_started_at j
                                            | Some t \<Rightarrow> Some t) \<rparr>)
                 (job_store svc) \<rparr>)"

record checkpoint =
  cp_progress :: real
  cp_processed :: int
  cp_successful :: int
  cp_failed :: int
  cp_duplicates :: int

definition update_job_progress ::
  "batch_env \<Rightarrow> service \<Rightarrow> string \<Rightarrow> checkpoint \<Rightarrow> job_error list \<Rightarrow> service" where
  "update_job_progress env svc job_id cp errors =
     (case job_db_error env ''progress'' of
        Some e \<Rightarrow> svc
      | None \<Rightarrow>
          svc\<lparr> job_store := update_rows job_id
                 (\<lambda>j. j\<lparr> j_progress_percentage := cp_progress cp,
                           j_processed_documents := cp_processed cp,
                           j_successful_documents := cp_successful cp,
                           j_failed_documents := cp_failed cp,
                           j_duplicate_documents := cp_duplicates cp,
                           j_errors := (if errors \<noteq> [] then errors else j_errors j) \<rparr>)
                 (job_store svc) \<rparr>)"

definition update_job_completion ::
  "batch_env \<Rightarrow> service \<Rightarrow> string \<Rightarrow> string \<Rightarrow> real \<Rightarrow> job_error list \<Rightarrow> service" where
  "update_job_completion env svc job_id status completed_at errors =
     (case job_db_error env ''completion'' of
        Some e \<Rightarrow> svc
      | None \<Rightarrow>
          svc\<lparr> job_store := update_rows job_id
                 (\<lambda>j. j\<lparr> j_status := status, j_completed_at := Some completed_at,
                           j_errors := errors \<rparr>)
                 (job_store svc) \<rparr>)"

text \<open>\<open>get_job_status\<close>: the row, or \<open>None\<close> when there is none or the query fails.\<close>

definition get_job_status :: "batch_env \<Rightarrow> service \<Rightarrow> string \<Rightarrow> job option" where
  "get_job_status env svc job_id =
     (case job_db_error env ''select'' of
        Some e \<Rightarrow> None
      | None \<Rightarrow> find (\<lambda>j. j_id j = job_id) (job_store svc))"

text \<open>\<open>pause_job\<close>, \<open>resume_job\<close> and \<open>cancel_job\<close>: the new state and the answer.\<close>

definition pause_job :: "batch_env \<Rightarrow> service \<Rightarrow> string \<Rightarrow> service \<times> bool" where
  "pause_job env svc job_id =
     (case active_jobs svc job_id of
        Some j \<Rightarrow>
          (update_job_status env
             (svc\<lparr>active_jobs := (active_jobs svc)(job_id \<mapsto> j\<lparr>j_status := ''paused''\<rparr>)\<rparr>)
             job_id ''paused'' None, True)
      | None \<Rightarrow> (svc, False))"

definition resume_job :: "batch_env \<Rightarrow> service \<Rightarrow> string \<Rightarrow> service \<times> bool" where
  "resume_job env svc job_id = (update_job_status env svc job_id ''pending'' None, True)"

definition cancel_job :: "batch_env \<Rightarrow> service \<Rightarrow> string \<Rightarrow> service \<times> bool" where
  "cancel_job env svc job_id =
     (update_job_status env
        (if job_id \<in> dom (active_jobs svc)
         then svc\<lparr>active_jobs := (active_jobs svc)(job_id := None)\<rparr> else svc)
        job_id ''failed'' None, True)"

text \<open>
  \<open>_create_paper_record\<close>: the row with the default quality score 0.7 and the status
  \<open>processing\<close>, flushed. The flush fails when the database fails, when the title is not
  a string (the column is not nullable), when pmid or doi is neither a string nor absent,
  and when pmid or doi is already in the table (both columns are unique).
\<close>

fun opt_str :: "pyval \<Rightarrow> py_error + string option" where
  "opt_str PNone = Inr None"
| "opt_str (PStr s) = Inr (Some s)"
| "opt_str v = Inl (DatabaseError ''invalid input for query argument'')"

definition create_paper_record :: "batch_env \<Rightarrow> paper list \<Rightarrow> pydict \<Rightarrow> py_error + paper" where
  "create_paper_record env tbl paper_data =
     (case flush_error env paper_data of
        Some e \<Rightarrow> Inl e
      | None \<Rightarrow>
          (case (dict_get_default paper_data ''title'' (PStr []),
                 opt_str (dict_get paper_data ''pmid''),
                 opt_str (dict_get paper_data ''doi'')) of
             (PStr t, Inr pmid, Inr doi) \<Rightarrow>
               if (pmid \<noteq> None \<and> (\<exists>p\<in>set tbl. p_pmid p = pmid)) \<or>
                  (doi \<noteq> None \<and> (\<exists>p\<in>set tbl. p_doi p = doi))
               then Inl (DatabaseError ''duplicate key value violates unique constraint'')
               else Inr \<lparr> p_id = new_paper_id env (length tbl), p_pmid = pmid, p_doi = doi,
                          p_title = t, p_processing_status = ''processing'',
                          p_embedding_generated = False, p_quality_score = 0.7 \<rparr>
           | (PStr t, Inl e, _) \<Rightarrow> Inl e
           | (PStr t, Inr pmid, Inl e) \<Rightarrow> Inl e
           | (_, _, _) \<Rightarrow> Inl (DatabaseError ''null value in column title'')))"

record batch_results =
  successful :: int
  failed :: int
  duplicates :: int
  errors :: "job_error list"

text \<open>The \<open>except\<close> branch of the loop over a batch, and the commit that ends a paper.\<close>

definition paper_failed :: "pydict \<Rightarrow> py_error \<Rightarrow> batch_results \<Rightarrow> batch_results" where
  "paper_failed paper_data e results =
     results\<lparr> failed := failed results + 1,
              errors := errors results @
                 [PaperError (dict_get_default paper_data ''pmid'' (PStr ''unknown'')) e] \<rparr>"

definition commit_paper ::
  "batch_env \<Rightarrow> pydict \<Rightarrow> rag_state \<Rightarrow> batch_results \<Rightarrow> rag_state \<times> batch_results" where
  "commit_paper env paper_data st results =
     (case commit_error env paper_data of
        Some e \<Rightarrow> (st, paper_failed paper_data e results)
      | None \<Rightarrow> (st, results))"

text \<open>
  One pass of the loop \<open>for paper_data in batch\<close> of \<open>_process_paper_batch\<close>. \<open>None\<close>
  is a pass that never ends (the chunking loop).
\<close>

definition process_paper ::
  "settings \<Rightarrow> batch_env \<Rightarrow> real \<Rightarrow> pydict \<Rightarrow> rag_state \<times> batch_results \<Rightarrow>
   (rag_state \<times> batch_results) option" where
  "process_paper cfg env threshold paper_data acc =
     (let st = fst acc; results = snd acc in
      if check_duplicate (md5_hex env)
           \<lparr> table = rs_papers st, execute_error = dup_execute_error env \<rparr> paper_data
      then Some (st, results\<lparr>duplicates := duplicates results + 1\<rparr>)
      else
        (case create_paper_record env (rs_papers st) paper_data of
           Inl e \<Rightarrow> Some (st, paper_failed paper_data e results)
         | Inr pap \<Rightarrow>
             if p_quality_score pap \<ge> threshold
             then
               (case process_paper_for_rag cfg (rag_env env)
                       (st\<lparr>rs_papers := rs_papers st @ [pap]\<rparr>) (p_id pap) paper_data of
                  None \<Rightarrow> None
                | Some (st', Some e) \<Rightarrow> Some (st', paper_failed paper_data e results)
                | Some (st', None) \<Rightarrow>
                    Some (commit_paper env paper_data st'
                            (results\<lparr>successful := successful results + 1\<rparr>)))
             else
               Some (commit_paper env paper_data
                       (st\<lparr>rs_papers := rs_papers st @ [mark_failed pap]\<rparr>)
                       (results\<lparr>failed := failed results + 1\<rparr>))))"

fun process_papers ::
  "settings \<Rightarrow> batch_env \<Rightarrow> real \<Rightarrow> pydict list \<Rightarrow> rag_state \<times> batch_results \<Rightarrow>
   (rag_state \<times> batch_results) option" where
  "process_papers cfg env threshold [] acc = Some acc"
| "process_papers cfg env threshold (paper_data # batch) acc =
     (case process_paper cfg env threshold paper_data acc of
        None \<Rightarrow> None
      | Some acc' \<Rightarrow> process_papers cfg env threshold batch acc')"

definition process_paper_batch ::
  "settings \<Rightarrow> batch_env \<Rightarrow> rag_state \<Rightarrow> pydict list \<Rightarrow> real \<Rightarrow>
   (rag_state \<times> batch_results) option" where
  "process_paper_batch cfg env st batch threshold =
     process_papers cfg env threshold batch
       (st, \<lparr> successful = 0, failed = 0, duplicates = 0, errors = [] \<rparr>)"

text \<open>
  \<open>for i in range(0, len(papers_data), batch_size): batch = papers_data[i:i + batch_size]\<close>.
  A step of 0 is a ValueError of \<open>range\<close>, a negative step gives no batch.
\<close>

fun chop :: "nat \<Rightarrow> 'a list \<Rightarrow> 'a list list" where
  "chop n xs = (if n = 0 \<or> xs = [] then [] else take n xs # chop n (drop n xs))"

declare chop.simps [simp del]

definition batches_of :: "int \<Rightarrow> 'a list \<Rightarrow> py_error + 'a list list" where
  "batches_of batch_size xs =
     (if batch_size = 0 then Inl (ValueError ''range() arg 3 must not be zero'')
      else if batch_size < 0 then Inr []
      else Inr (chop (nat batch_size) xs))"

text \<open>
  The counters of \<open>_execute_bulk_ingestion\<close>, with the service and the checkpoints
  written so far (the arguments of each call of \<open>_update_job_progress\<close>, in order).
\<close>

record run =
  r_service :: service
  total_processed :: int
  successful_papers :: int
  failed_papers :: int
  duplicate_papers :: int
  r_errors :: "job_error list"
  checkpoints :: "checkpoint list"

definition after_batch ::
  "batch_env \<Rightarrow> string \<Rightarrow> nat \<Rightarrow> pydict list \<Rightarrow> rag_state \<times> batch_results \<Rightarrow> run \<Rightarrow> run" where
  "after_batch env job_id n batch out r =
     (let batch_results = snd out;
          total_processed' = total_processed r + int (length batch);
          successful' = successful_papers r + successful batch_results;
          failed' = failed_papers r + failed batch_results;
          duplicates' = duplicate_papers r + duplicates batch_results;
          errors' = r_errors r @ errors batch_results;
          cp = \<lparr> cp_progress = (real_of_int total_processed' / real n) * 100,
                 cp_processed = total_processed', cp_successful = successful',
                 cp_failed = failed', cp_duplicates = duplicates' \<rparr>
      in \<lparr> r_service = update_job_progress env ((r_service r)\<lparr>world := fst out\<rparr>) job_id cp errors',
           total_processed = total_processed', successful_papers = successful',
           failed_papers = failed', duplicate_papers = duplicates',
           r_errors = errors', checkpoints = checkpoints r @ [cp] \<rparr>)"

fun run_batches ::
  "settings \<Rightarrow> batch_env \<Rightarrow> string \<Rightarrow> real \<Rightarrow> nat \<Rightarrow> pydict list list \<Rightarrow> run \<Rightarrow> run option" where
  "run_batches cfg env job_id threshold n [] r = Some r"
| "run_batches cfg env job_id threshold n (batch # batches) r =
     (case process_paper_batch cfg env (world (r_service r)) batch threshold of
        None \<Rightarrow> None
      | Some out \<Rightarrow>
          run_batches cfg env job_id threshold n batches (after_batch env job_id n batch out r))"

text \<open>The \<open>finally\<close> clause, after the \<open>except\<close> clause or the completion.\<close>

definition finish_job ::
  "batch_env \<Rightarrow> service \<Rightarrow> string \<Rightarrow> string \<Rightarrow> real \<Rightarrow> job_error list \<Rightarrow> service" where
  "finish_job env svc job_id status completed_at errs =
     (let svc' = update_job_completion env svc job_id status completed_at errs
      in svc'\<lparr>active_jobs := (active_jobs svc')(job_id := None)\<rparr>)"

text \<open>
  \<open>_execute_bulk_ingestion\<close>, the task that \<open>start_bulk_ingestion\<close> schedules. The
  answer is the final service and the checkpoints; \<open>None\<close> is a run that never ends.
\<close>

definition execute_bulk_ingestion ::
  "settings \<Rightarrow> batch_env \<Rightarrow> service \<Rightarrow> string \<Rightarrow> bulk_request \<Rightarrow> real \<Rightarrow> real \<Rightarrow>
   (service \<times> checkpoint list) option" where
  "execute_bulk_ingestion cfg env svc job_id request start_time end_time =
     (case active_jobs svc job_id of
        None \<Rightarrow> Some (svc, [])
      | Some j \<Rightarrow>
          (let svc1 = update_job_status env svc job_id ''running'' (Some start_time) in
           case (if source_database request = ''pubmed'' then bulk_search_and_fetch env request
                 else Inl (ValueError (''Unsupported source database: '' @ source_database request))) of
             Inl e \<Rightarrow> Some (finish_job env svc1 job_id ''failed'' end_time [JobError e], [])
           | Inr papers_data \<Rightarrow>
               (let cp0 = \<lparr> cp_progress = 0, cp_processed = 0, cp_successful = 0,
                            cp_failed = 0, cp_duplicates = 0 \<rparr>;
                    svc2 = update_job_progress env
                             (svc1\<lparr>active_jobs := (active_jobs svc1)
                                      (job_id \<mapsto> j\<lparr>j_total_documents := int (length papers_data)\<rparr>)\<rparr>)
                             job_id cp0 []
                in case batches_of (BATCH_SIZE cfg) papers_data of
                     Inl e \<Rightarrow> Some (finish_job env svc2 job_id ''failed'' end_time [JobError e], [cp0])
                   | Inr batches \<Rightarrow>
                       (case run_batches cfg env job_id (quality_threshold request)
                               (length papers_data) batches
                               \<lparr> r_service = svc2, total_processed = 0, successful_papers = 0,
                                 failed_papers = 0, duplicate_papers = 0, r_errors = [],
                                 checkpoints = [cp0] \<rparr> of
                          None \<Rightarrow> None
                        | Some r \<Rightarrow>
                            Some (finish_job env (r_service r) job_id ''completed'' end_time
                                    (r_errors r), checkpoints r)))))"

text \<open>The invariant of a checkpoint and of a row, and a store with nothing in it.\<close>

definition cp_balanced :: "checkpoint \<Rightarrow> bool" where
  "cp_balanced cp = (cp_processed cp = cp_successful cp + cp_failed cp + cp_duplicates cp)"

definition job_status_of :: "service \<Rightarrow> string \<Rightarrow> string option" where
  "job_status_of svc job_id = map_option j_status (find (\<lambda>j. j_id j = job_id) (job_store svc))"

definition empty_service :: service where
  "empty_service =
     \<lparr> active_jobs = Map.empty, job_store = [], world = \<lparr> rs_papers = [], rs_store = [] \<rparr> \<rparr>"

definition working_batch_env :: batch_env where
  "working_batch_env =
     \<lparr> rag_env = working_env, md5_hex = toy_md5, dup_execute_error = (\<lambda>q. None),
       flush_error = (\<lambda>pd. None), commit_error = (\<lambda>pd. None),
       new_paper_id = (\<lambda>n. ''paper-'' @ str_of_nat n),
       bulk_search_and_fetch = (\<lambda>request. Inr []),
       job_db_error = (\<lambda>kind. None) \<rparr>"

definition job_row :: "service \<Rightarrow> string \<Rightarrow> job option" where
  "job_row svc job_id = find (\<lambda>j. j_id j = job_id) (job_store svc)"

definition cochrane_request :: bulk_request where
  "cochrane_request =
     \<lparr> source_database = ''cochrane'', subject_areas = [''cardiology''],
       quality_threshold = 0.5 \<rparr>"

definition pubmed_request :: bulk_request where
  "pubmed_request =
     \<lparr> source_database = ''pubmed'', subject_areas = [''cardiology''],
       quality_threshold = 0.5 \<rparr>"

section \<open>Proofs: chunking of full text\<close>


lemma py_split_acc_words:
  "(\<forall>c\<in>set a. \<not> is_space c) \<Longrightarrow> w \<in> set (py_split_acc a s) \<Longrightarrow> is_word w"
proof (induction a s rule: py_split_acc.induct)
  case (1 a)
  then show ?case by (simp add: is_word_def split: if_splits)
next
  case (2 a c cs)
  show ?case
  proof (cases "is_space c")
    case True
    show ?thesis
    proof (cases "a = []")
      case True
      with 2 \<open>is_space c\<close> show ?thesis by simp
    next
      case False
      with 2 \<open>is_space c\<close> have "w = a \<or> w \<in> set (py_split_acc [] cs)" by simp
      then show ?thesis
      proof
        assume "w = a" with False "2.prems"(1) show ?thesis by (simp add: is_word_def)
      next
        assume "w \<in> set (py_split_acc [] cs)"
        with "2.IH"(2)[OF True False] show ?thesis by simp
      qed
    qed
  next
    case False
    with 2 show ?thesis by simp
  qed
qed


lemma py_split_words: "w \<in> set (py_split s) \<Longrightarrow> is_word w"
  unfolding py_split_def using py_split_acc_words[of "[]"] by simp

lemma py_split_acc_nospace:
  "(\<forall>c\<in>set w. \<not> is_space c) \<Longrightarrow> py_split_acc a (w @ s) = py_split_acc (a @ w) s"
  by (induction w arbitrary: a) simp_all

lemma py_split_acc_join:
  "(\<forall>w\<in>set ws. is_word w) \<Longrightarrow> is_word v \<Longrightarrow> py_split_acc [] (py_join (v # ws)) = v # ws"
proof (induction ws arbitrary: v)
  case Nil
  then show ?case using py_split_acc_nospace[of v "[]" "[]"] by (simp add: is_word_def)
next
  case (Cons u ws)
  have sp: "is_space (CHR 0x20)" by (simp add: is_space_def)
  have "py_split_acc [] (py_join (v # u # ws)) = py_split_acc v (CHR 0x20 # py_join (u # ws))"
    using Cons.prems(2) py_split_acc_nospace[of v "[]"] by (simp add: is_word_def)
  also have "\<dots> = v # py_split_acc [] (py_join (u # ws))"
    using Cons.prems(2) sp by (simp add: is_word_def)
  also have "\<dots> = v # u # ws" using Cons by simp
  finally show ?case .
qed

lemma py_split_join: "(\<forall>w\<in>set ws. is_word w) \<Longrightarrow> py_split (py_join ws) = ws"
  by (cases ws) (simp_all add: py_split_def py_split_acc_join)

lemma py_slice_nonneg:
  "0 \<le> i \<Longrightarrow> i \<le> j \<Longrightarrow> j \<le> int (length xs) \<Longrightarrow> py_slice xs i j = take (nat j - nat i) (drop (nat i) xs)"
  by (simp add: py_slice_def slice_bound_def min_def)

lemma set_py_slice: "set (py_slice xs i j) \<subseteq> set xs"
  unfolding py_slice_def by (meson set_take_subset set_drop_subset subset_trans)

lemma next_start_progress:
  "overlap < chunk_size \<Longrightarrow> start < int (length words) \<Longrightarrow> start < next_start chunk_size overlap words start"
  by (auto simp: next_start_def chunk_end_def Let_def min_def)

lemma chunk_loop_terminates:
  "overlap < chunk_size \<Longrightarrow> \<exists>out. chunk_loop chunk_size overlap words start chunks = Some (chunks @ out)"
proof (induction "nat (int (length words) - start)" arbitrary: start chunks rule: less_induct)
  case less
  show ?case
  proof (cases "start < int (length words)")
    case False
    then show ?thesis by (subst chunk_loop.simps) simp
  next
    case True
    let ?s = "next_start chunk_size overlap words start"
    have "start < ?s" using next_start_progress[OF less.prems True] .
    then have "nat (int (length words) - ?s) < nat (int (length words) - start)" using True by linarith
    from less.hyps[OF this less.prems, of "chunks @ [chunk_at chunk_size words start]"]
    obtain out where "chunk_loop chunk_size overlap words ?s (chunks @ [chunk_at chunk_size words start]) = Some ((chunks @ [chunk_at chunk_size words start]) @ out)" by blast
    then show ?thesis using True by (subst chunk_loop.simps) simp
  qed
qed


lemma slice_words:
  "(\<forall>w\<in>set words. is_word w) \<Longrightarrow> \<forall>w\<in>set (py_slice words i j). is_word w"
  using set_py_slice[of words i j] by blast

lemma chunk_at_split:
  assumes "\<forall>w\<in>set words. is_word w" "0 \<le> start" "start < int (length words)" "0 < chunk_size"
  shows "py_split (chunk_at chunk_size words start) =
         take (nat (chunk_end chunk_size words start) - nat start) (drop (nat start) words)"
proof -
  have "start \<le> chunk_end chunk_size words start" "chunk_end chunk_size words start \<le> int (length words)"
    using assms by (simp_all add: chunk_end_def)
  then have "py_slice words start (chunk_end chunk_size words start) =
         take (nat (chunk_end chunk_size words start) - nat start) (drop (nat start) words)"
    using assms(2) by (rule_tac py_slice_nonneg) simp_all
  moreover have "py_split (chunk_at chunk_size words start) = py_slice words start (chunk_end chunk_size words start)"
    unfolding chunk_at_def using slice_words[OF assms(1)] by (rule_tac py_split_join) simp
  ultimately show ?thesis by simp
qed

lemma chunk_loop_covers:
  assumes ws: "\<forall>w\<in>set words. is_word w" and ov: "0 \<le> overlap" "overlap < chunk_size"
  shows "0 \<le> start \<Longrightarrow>
         \<exists>out. chunk_loop chunk_size overlap words start chunks = Some (chunks @ out) \<and>
           (\<forall>i. nat start \<le> i \<and> i < length words \<longrightarrow> (\<exists>c\<in>set out. words ! i \<in> set (py_split c))) \<and>
           (\<forall>c\<in>set out. int (length (py_split c)) \<le> chunk_size)"
proof (induction "nat (int (length words) - start)" arbitrary: start chunks rule: less_induct)
  case less
  show ?case
  proof (cases "start < int (length words)")
    case False
    have "chunk_loop chunk_size overlap words start chunks = Some (chunks @ [])"
      using False by (subst chunk_loop.simps) simp
    moreover have "\<forall>i. nat start \<le> i \<and> i < length words \<longrightarrow> (\<exists>c\<in>set []. words ! i \<in> set (py_split c))"
      using False less.prems by auto
    ultimately show ?thesis by (intro exI[of _ "[]"]) simp
  next
    case True
    let ?s = "next_start chunk_size overlap words start"
    let ?e = "chunk_end chunk_size words start"
    let ?c = "chunk_at chunk_size words start"
    have cs: "0 < chunk_size" using ov by simp
    have lt: "start < ?s" using next_start_progress[OF ov(2) True] .
    then have m: "nat (int (length words) - ?s) < nat (int (length words) - start)" using True by linarith
    have s0: "0 \<le> ?s" using lt less.prems by simp
    from less.hyps[OF m s0, of "chunks @ [?c]"]
    obtain out where out: "chunk_loop chunk_size overlap words ?s (chunks @ [?c]) = Some ((chunks @ [?c]) @ out)"
      and cov: "\<forall>i. nat ?s \<le> i \<and> i < length words \<longrightarrow> (\<exists>c\<in>set out. words ! i \<in> set (py_split c))"
      and sz: "\<forall>c\<in>set out. int (length (py_split c)) \<le> chunk_size" by blast
    have sp: "py_split ?c = take (nat ?e - nat start) (drop (nat start) words)"
      using chunk_at_split[OF ws less.prems True cs] .
    have e1: "start < ?e" "?e \<le> int (length words)" "?e \<le> start + chunk_size"
      using True cs by (simp_all add: chunk_end_def)
    have r: "chunk_loop chunk_size overlap words start chunks = Some (chunks @ (?c # out))"
      using True out by (subst chunk_loop.simps) simp
    have szc: "int (length (py_split ?c)) \<le> chunk_size"
      using sp e1 less.prems by simp
    have covc: "\<exists>c\<in>set (?c # out). words ! i \<in> set (py_split c)"
      if i: "nat start \<le> i" "i < length words" for i
    proof (cases "int i < ?e")
      case True
      define k where "k = i - nat start"
      have k: "k < nat ?e - nat start" "nat start + k = i" using True i less.prems by (simp_all add: k_def)
      have "take (nat ?e - nat start) (drop (nat start) words) ! k = words ! i"
        using k i by simp
      moreover have "k < length (take (nat ?e - nat start) (drop (nat start) words))"
        using k i e1 by simp
      ultimately have "words ! i \<in> set (py_split ?c)" unfolding sp by (metis nth_mem)
      then show ?thesis by simp
    next
      case False
      then have "?e < int (length words)" using i by linarith
      then have "?s = ?e - overlap" by (simp add: next_start_def Let_def)
      then have "nat ?s \<le> i" using False ov(1) by linarith
      with cov i obtain c where "c \<in> set out" "words ! i \<in> set (py_split c)" by blast
      then show ?thesis by auto
    qed
    show ?thesis
      using r covc sz szc by (intro exI[of _ "?c # out"]) auto
  qed
qed


lemma chunk_loop_step:
  "start < int (length words) \<Longrightarrow>
   chunk_loop cs ov words start chunks =
   chunk_loop cs ov words (next_start cs ov words start) (chunks @ [chunk_at cs words start])"
  by (subst chunk_loop.simps) simp

lemma chunk_loop_done:
  "\<not> start < int (length words) \<Longrightarrow> chunk_loop cs ov words start chunks = Some chunks"
  by (subst chunk_loop.simps) simp

text \<open>
  C9. Whenever the configured overlap is strictly below the chunk size, splitting any text
  returns (the loop leaves), because every pass of the loop moves \<open>start\<close> strictly
  forward; and when the overlap is moreover not negative, as the configured 200 is, every
  word of the text, position by position, is among the words of some chunk, and no chunk
  has more than chunk-size words.
\<close>

theorem split_text_into_chunks_terminates:
  assumes "CHUNK_OVERLAP cfg < CHUNK_SIZE cfg"
  shows "\<exists>chunks. split_text_into_chunks cfg text = Some chunks \<and>
           (\<forall>start. start < int (length (py_split text)) \<longrightarrow>
              start < next_start (CHUNK_SIZE cfg) (CHUNK_OVERLAP cfg) (py_split text) start) \<and>
           (0 \<le> CHUNK_OVERLAP cfg \<longrightarrow>
              (\<forall>i<length (py_split text). \<exists>c\<in>set chunks. py_split text ! i \<in> set (py_split c)) \<and>
              (\<forall>c\<in>set chunks. int (length (py_split c)) \<le> CHUNK_SIZE cfg))"
proof (cases "0 \<le> CHUNK_OVERLAP cfg")
  case True
  have ws: "\<forall>w\<in>set (py_split text). is_word w" using py_split_words by blast
  from chunk_loop_covers[OF ws True assms, of 0 "[]"]
  obtain out where "chunk_loop (CHUNK_SIZE cfg) (CHUNK_OVERLAP cfg) (py_split text) 0 [] = Some out"
    and "\<forall>i. i < length (py_split text) \<longrightarrow> (\<exists>c\<in>set out. py_split text ! i \<in> set (py_split c))"
    and "\<forall>c\<in>set out. int (length (py_split c)) \<le> CHUNK_SIZE cfg"
    by auto
  then show ?thesis
    using next_start_progress[OF assms] by (auto simp: split_text_into_chunks_def)
next
  case False
  from chunk_loop_terminates[OF assms, of "py_split text" 0 "[]"]
  obtain out where "chunk_loop (CHUNK_SIZE cfg) (CHUNK_OVERLAP cfg) (py_split text) 0 [] = Some out"
    by auto
  then show ?thesis
    using False next_start_progress[OF assms] by (auto simp: split_text_into_chunks_def)
qed

lemma split_words_example:
  "py_split ''a b c d e f g'' = [''a'', ''b'', ''c'', ''d'', ''e'', ''f'', ''g'']"
  by code_simp

theorem split_text_into_chunks_terminates_witness:
  "CHUNK_OVERLAP default_settings < CHUNK_SIZE default_settings \<and>
   split_text_into_chunks (default_settings\<lparr>CHUNK_SIZE := 3, CHUNK_OVERLAP := 1\<rparr>) ''a b c d e f g''
     = Some [''a b c'', ''c d e'', ''e f g''] \<and>
   (\<exists>chunks. split_text_into_chunks default_settings ''a b c d e f g'' = Some chunks \<and>
      (\<forall>i<length (py_split ''a b c d e f g'').
          \<exists>c\<in>set chunks. py_split ''a b c d e f g'' ! i \<in> set (py_split c)) \<and>
      (\<forall>c\<in>set chunks. int (length (py_split c)) \<le> 1000))"
proof -
  have h: "CHUNK_OVERLAP default_settings < CHUNK_SIZE default_settings"
    by (simp add: default_settings_def)
  have e: "split_text_into_chunks (default_settings\<lparr>CHUNK_SIZE := 3, CHUNK_OVERLAP := 1\<rparr>) ''a b c d e f g''
     = Some [''a b c'', ''c d e'', ''e f g'']"
    by (simp add: split_text_into_chunks_def default_settings_def split_words_example
          chunk_loop_step chunk_loop_done next_start_def chunk_end_def chunk_at_def
          py_slice_def slice_bound_def)
  have z: "0 \<le> CHUNK_OVERLAP default_settings" "CHUNK_SIZE default_settings = 1000"
    by (simp_all add: default_settings_def)
  from split_text_into_chunks_terminates[OF h, of "''a b c d e f g''"] z h e
  show ?thesis by metis
qed

section \<open>Proofs: highlight snippets\<close>


























section \<open>Proofs: search\<close>


lemma merged_getitem_paper: "merged_getitem r ''paper'' = Inl (KeyError ''paper'')"
  by (simp add: merged_getitem_def)


lemma any_same_paper_Cons: "any_same_paper (r # rs) pid = Inl (KeyError ''paper'')"
  by (simp add: merged_getitem_paper)



















lemma search_papers_Inl:
  "search_pipeline env req = Inl e \<Longrightarrow> search_papers env req = empty_response env req"
  by (simp add: search_papers_def empty_response_def execution_time_def)


lemma fan_out_fail:
  "ct \<in> set cts \<Longrightarrow>
   collection_query env q ct (sr_max_results req) = Inl e \<Longrightarrow>
   \<exists>e'. fan_out env req q cts acc = Inl e'"
proof (induction cts arbitrary: acc)
  case Nil
  then show ?case by simp
next
  case (Cons c cts)
  show ?case
  proof (cases "c = ct")
    case True
    with Cons.prems(2) show ?thesis by (simp add: search_similar_papers_def)
  next
    case False
    with Cons.prems(1) have "ct \<in> set cts" by simp
    from Cons.IH[OF this Cons.prems(2)] show ?thesis by (auto split: sum.splits)
  qed
qed

lemma hydrate_fail:
  "m \<in> set xs \<Longrightarrow> session_get env (m_paper_id m) = Inl e \<Longrightarrow> \<exists>e'. hydrate env req xs = Inl e'"
proof (induction xs)
  case Nil
  then show ?case by simp
next
  case (Cons x xs)
  show ?case
  proof (cases "x = m")
    case True
    with Cons.prems(2) show ?thesis by simp
  next
    case False
    with Cons.prems(1) have "m \<in> set xs" by simp
    from Cons.IH[OF this Cons.prems(2)] show ?thesis
      by (auto split: sum.splits option.splits)
  qed
qed





text \<open>
  C8. Whenever the pipeline of a search raises, the search returns the request with an empty
  result list, a count of zero and the elapsed time. In particular this is what happens
  when embedding the query raises, when the collection raises for one of the content types
  searched, and when loading the paper of a surviving candidate raises.
\<close>

theorem search_papers_degrades_to_empty:
  "(\<forall>e. search_pipeline env req = Inl e \<longrightarrow>
        search_papers env req = empty_response env req) \<and>
   (\<forall>e. embed_search_query env req = Inl e \<longrightarrow>
        search_papers env req = empty_response env req) \<and>
   (\<forall>q ct e. embed_search_query env req = Inr q \<and> ct \<in> set (content_types req) \<and>
        collection_query env q ct (sr_max_results req) = Inl e \<longrightarrow>
        search_papers env req = empty_response env req) \<and>
   (\<forall>q acc m e. embed_search_query env req = Inr q \<and>
        fan_out env req q (content_types req) [] = Inr acc \<and>
        m \<in> set (py_slice_to (sort_by_score acc) (sr_max_results req)) \<and>
        session_get env (m_paper_id m) = Inl e \<longrightarrow>
        search_papers env req = empty_response env req)"
proof (intro conjI allI impI)
  fix e assume "search_pipeline env req = Inl e"
  then show "search_papers env req = empty_response env req" by (rule search_papers_Inl)
next
  fix e assume "embed_search_query env req = Inl e"
  then have "search_pipeline env req = Inl e" by (simp add: search_pipeline_def)
  then show "search_papers env req = empty_response env req" by (rule search_papers_Inl)
next
  fix q ct e
  assume a: "embed_search_query env req = Inr q \<and> ct \<in> set (content_types req) \<and>
        collection_query env q ct (sr_max_results req) = Inl e"
  then obtain e' where "fan_out env req q (content_types req) [] = Inl e'"
    using fan_out_fail by blast
  with a have "search_pipeline env req = Inl e'" by (simp add: search_pipeline_def)
  then show "search_papers env req = empty_response env req" by (rule search_papers_Inl)
next
  fix q acc m e
  assume a: "embed_search_query env req = Inr q \<and>
        fan_out env req q (content_types req) [] = Inr acc \<and>
        m \<in> set (py_slice_to (sort_by_score acc) (sr_max_results req)) \<and>
        session_get env (m_paper_id m) = Inl e"
  then obtain e' where
    "hydrate env req (py_slice_to (sort_by_score acc) (sr_max_results req)) = Inl e'"
    using hydrate_fail by blast
  with a have "search_pipeline env req = Inl e'" by (simp add: search_pipeline_def)
  then show "search_papers env req = empty_response env req" by (rule search_papers_Inl)
qed

theorem search_papers_degrades_to_empty_witness:
  "embed_search_query
     (abstract_chunk_env\<lparr>embed_text := (\<lambda>s. Inl (RuntimeError ''Embedding model not initialized''))\<rparr>)
     diabetes_request = Inl (RuntimeError ''Embedding model not initialized'') \<and>
   search_papers
     (abstract_chunk_env\<lparr>embed_text := (\<lambda>s. Inl (RuntimeError ''Embedding model not initialized''))\<rparr>)
     diabetes_request =
     \<lparr> resp_query = ''diabetes treatment'', resp_results = [], resp_total_results = 0,
       resp_execution_time_ms = 250, resp_query_type = NATURAL_LANGUAGE \<rparr>"
proof -
  let ?env = "abstract_chunk_env\<lparr>embed_text := (\<lambda>s. Inl (RuntimeError ''Embedding model not initialized''))\<rparr>"
  have e: "embed_search_query ?env diabetes_request = Inl (RuntimeError ''Embedding model not initialized'')"
    by (simp add: embed_search_query_def diabetes_request_def)
  have r: "empty_response ?env diabetes_request =
     \<lparr> resp_query = ''diabetes treatment'', resp_results = [], resp_total_results = 0,
       resp_execution_time_ms = 250, resp_query_type = NATURAL_LANGUAGE \<rparr>"
    by (simp add: empty_response_def diabetes_request_def abstract_chunk_env_def py_int_def)
  from search_papers_degrades_to_empty[of ?env diabetes_request] e
  have "search_papers ?env diabetes_request = empty_response ?env diabetes_request" by blast
  with e r show ?thesis by simp
qed

text \<open>
  C2 fails on the code. When the title search and the abstract search both return the same
  paper (title similarity 0.6, abstract similarity 0.95, both above the threshold 0.5), the
  test for an earlier occurrence subscripts the stored entry with the key \<open>paper\<close>, which
  no entry has: the KeyError ends the search and the answer has no results at all, neither
  the title match nor the abstract match.
\<close>

theorem search_papers_same_paper_two_types_raises:
  "search_similar_papers (collection_query title_abstract_env) [1, 0] ''title'' 10 0.5 =
     Inr [hit_of_row (row_for ''title'' ''Diabetes treatment outcomes'' 0.4)] \<and>
   hit_similarity_score (hit_of_row (row_for ''title'' ''Diabetes treatment outcomes'' 0.4)) = 0.6 \<and>
   search_similar_papers (collection_query title_abstract_env) [1, 0] ''abstract'' 10 0.5 =
     Inr [hit_of_row (row_for ''abstract'' ''diabetes treatment abstract'' 0.05)] \<and>
   hit_similarity_score (hit_of_row (row_for ''abstract'' ''diabetes treatment abstract'' 0.05)) = 0.95 \<and>
   search_pipeline title_abstract_env (diabetes_request\<lparr>sr_min_confidence_score := 0.5\<rparr>) =
     Inl (KeyError ''paper'') \<and>
   resp_results (search_papers title_abstract_env
                   (diabetes_request\<lparr>sr_min_confidence_score := 0.5\<rparr>)) = []"
proof -
  have p: "search_pipeline title_abstract_env (diabetes_request\<lparr>sr_min_confidence_score := 0.5\<rparr>) =
     Inl (KeyError ''paper'')"
    by (simp add: search_pipeline_def embed_search_query_def title_abstract_env_def
          diabetes_request_def content_types_def search_similar_papers_def hit_of_row_def
          row_for_def merged_of_hit_def merged_getitem_def)
  have s: "search_similar_papers (collection_query title_abstract_env) [1, 0] ''title'' 10 0.5 =
     Inr [hit_of_row (row_for ''title'' ''Diabetes treatment outcomes'' 0.4)]"
    "search_similar_papers (collection_query title_abstract_env) [1, 0] ''abstract'' 10 0.5 =
     Inr [hit_of_row (row_for ''abstract'' ''diabetes treatment abstract'' 0.05)]"
    by (simp_all add: search_similar_papers_def title_abstract_env_def row_for_def)
  have v: "hit_similarity_score (hit_of_row (row_for ''title'' ''Diabetes treatment outcomes'' 0.4)) = 0.6"
    "hit_similarity_score (hit_of_row (row_for ''abstract'' ''diabetes treatment abstract'' 0.05)) = 0.95"
    by (simp_all add: hit_of_row_def row_for_def)
  from p s v show ?thesis by (simp add: search_papers_Inl empty_response_def)
qed

text \<open>
  The same happens for any two hits, of one paper or of two: a merged list never grows
  beyond one entry.
\<close>

lemma add_results_second_hit_raises:
  "add_results ct (h1 # h2 # hs) [] = Inl (KeyError ''paper'')"
  by (simp add: merged_getitem_paper)

section \<open>Proofs: duplicate detection\<close>


lemma py_slice_to_8: "py_slice_to xs 8 = take 8 xs"
  by (simp add: py_slice_to_def slice_bound_def min_def)

lemma check_duplicate_pmid_match:
  "truthy (dict_get pd ''pmid'') \<Longrightarrow> execute md5 s (ByPmid (dict_get pd ''pmid'')) = Inr True \<Longrightarrow>
   check_duplicate md5 s pd"
  by (simp add: check_duplicate_def check_by_pmid_def)

lemma check_duplicate_pmid_error:
  "truthy (dict_get pd ''pmid'') \<Longrightarrow> execute md5 s (ByPmid (dict_get pd ''pmid'')) = Inl e \<Longrightarrow>
   \<not> check_duplicate md5 s pd"
  by (simp add: check_duplicate_def check_by_pmid_def)

lemma check_by_pmid_passed:
  "pmid_passed md5 s pd \<Longrightarrow> check_by_pmid md5 s pd = check_by_doi md5 s pd"
  by (auto simp: pmid_passed_def check_by_pmid_def)

lemma check_by_doi_passed:
  "doi_passed md5 s pd \<Longrightarrow> check_by_doi md5 s pd = check_by_title md5 s pd"
  by (auto simp: doi_passed_def check_by_doi_def)

lemma check_duplicate_doi_match:
  "pmid_passed md5 s pd \<Longrightarrow> truthy (dict_get pd ''doi'') \<Longrightarrow>
   execute md5 s (ByDoi (dict_get pd ''doi'')) = Inr True \<Longrightarrow> check_duplicate md5 s pd"
  by (simp add: check_duplicate_def check_by_pmid_passed check_by_doi_def)

lemma check_duplicate_doi_error:
  "pmid_passed md5 s pd \<Longrightarrow> truthy (dict_get pd ''doi'') \<Longrightarrow>
   execute md5 s (ByDoi (dict_get pd ''doi'')) = Inl e \<Longrightarrow> \<not> check_duplicate md5 s pd"
  by (simp add: check_duplicate_def check_by_pmid_passed check_by_doi_def)

lemma check_duplicate_title:
  "pmid_passed md5 s pd \<Longrightarrow> doi_passed md5 s pd \<Longrightarrow>
   dict_get_default pd ''title'' (PStr []) = PStr t \<Longrightarrow>
   check_duplicate md5 s pd =
     (execute_error s (ByTitleHash (take 8 (md5 (py_lower t)))) = None \<and>
      (\<exists>p\<in>set (table s). take 8 (md5 (py_lower (p_title p))) = take 8 (md5 (py_lower t))))"
  by (auto simp: check_duplicate_def check_by_pmid_passed check_by_doi_passed check_by_title_def
        title_lower_def execute_def py_slice_to_8 split: option.splits)

lemma check_duplicate_title_error:
  "pmid_passed md5 s pd \<Longrightarrow> doi_passed md5 s pd \<Longrightarrow>
   (\<forall>t. dict_get_default pd ''title'' (PStr []) \<noteq> PStr t) \<or>
   (\<exists>t e. dict_get_default pd ''title'' (PStr []) = PStr t \<and>
          execute md5 s (ByTitleHash (take 8 (md5 (py_lower t)))) = Inl e) \<Longrightarrow>
   \<not> check_duplicate md5 s pd"
  by (auto simp: check_duplicate_def check_by_pmid_passed check_by_doi_passed check_by_title_def
        title_lower_def py_slice_to_8 split: pyval.splits)

lemma execute_pmid:
  "execute md5 s (ByPmid (PStr x)) = Inr True \<longleftrightarrow>
     execute_error s (ByPmid (PStr x)) = None \<and> (\<exists>p\<in>set (table s). p_pmid p = Some x)"
  by (auto simp: execute_def split: option.splits)

lemma execute_doi:
  "execute md5 s (ByDoi (PStr x)) = Inr True \<longleftrightarrow>
     execute_error s (ByDoi (PStr x)) = None \<and> (\<exists>p\<in>set (table s). p_doi p = Some x)"
  by (auto simp: execute_def split: option.splits)


text \<open>
  C5. The duplicate check applies its checks in order and the first match wins: a candidate
  with a pmid that a stored paper has is a duplicate; otherwise a candidate with a doi that
  a stored paper has is a duplicate; otherwise the candidate is a duplicate exactly when a
  stored paper's lower-cased title has the same first 8 characters of its MD5 digest as
  the candidate's lower-cased title. Whenever a statement that is executed fails, whichever
  of the three it is, the answer is "not a duplicate".
\<close>

theorem check_duplicate_ordered_fail_open:
  "(\<forall>x. dict_get pd ''pmid'' = PStr x \<and> x \<noteq> [] \<and>
        execute_error s (ByPmid (PStr x)) = None \<and> (\<exists>p\<in>set (table s). p_pmid p = Some x)
        \<longrightarrow> check_duplicate md5 s pd) \<and>
   (\<forall>x. pmid_passed md5 s pd \<and> dict_get pd ''doi'' = PStr x \<and> x \<noteq> [] \<and>
        execute_error s (ByDoi (PStr x)) = None \<and> (\<exists>p\<in>set (table s). p_doi p = Some x)
        \<longrightarrow> check_duplicate md5 s pd) \<and>
   (\<forall>t. pmid_passed md5 s pd \<and> doi_passed md5 s pd \<and>
        dict_get_default pd ''title'' (PStr []) = PStr t
        \<longrightarrow> check_duplicate md5 s pd =
            (execute_error s (ByTitleHash (take 8 (md5 (py_lower t)))) = None \<and>
             (\<exists>p\<in>set (table s).
                 take 8 (md5 (py_lower (p_title p))) = take 8 (md5 (py_lower t))))) \<and>
   (\<forall>e. truthy (dict_get pd ''pmid'') \<and>
        execute md5 s (ByPmid (dict_get pd ''pmid'')) = Inl e
        \<longrightarrow> \<not> check_duplicate md5 s pd) \<and>
   (\<forall>e. pmid_passed md5 s pd \<and> truthy (dict_get pd ''doi'') \<and>
        execute md5 s (ByDoi (dict_get pd ''doi'')) = Inl e
        \<longrightarrow> \<not> check_duplicate md5 s pd) \<and>
   (\<forall>t e. pmid_passed md5 s pd \<and> doi_passed md5 s pd \<and>
        dict_get_default pd ''title'' (PStr []) = PStr t \<and>
        execute md5 s (ByTitleHash (take 8 (md5 (py_lower t)))) = Inl e
        \<longrightarrow> \<not> check_duplicate md5 s pd)"
proof (intro conjI allI impI)
  fix x
  assume a: "dict_get pd ''pmid'' = PStr x \<and> x \<noteq> [] \<and>
        execute_error s (ByPmid (PStr x)) = None \<and> (\<exists>p\<in>set (table s). p_pmid p = Some x)"
  then have "execute md5 s (ByPmid (dict_get pd ''pmid'')) = Inr True"
    using execute_pmid[of md5 s x] by simp
  with a show "check_duplicate md5 s pd" by (simp add: check_duplicate_pmid_match)
next
  fix x
  assume a: "pmid_passed md5 s pd \<and> dict_get pd ''doi'' = PStr x \<and> x \<noteq> [] \<and>
        execute_error s (ByDoi (PStr x)) = None \<and> (\<exists>p\<in>set (table s). p_doi p = Some x)"
  then have "execute md5 s (ByDoi (dict_get pd ''doi'')) = Inr True"
    using execute_doi[of md5 s x] by simp
  with a show "check_duplicate md5 s pd" by (simp add: check_duplicate_doi_match)
next
  fix t
  assume "pmid_passed md5 s pd \<and> doi_passed md5 s pd \<and>
        dict_get_default pd ''title'' (PStr []) = PStr t"
  then show "check_duplicate md5 s pd =
            (execute_error s (ByTitleHash (take 8 (md5 (py_lower t)))) = None \<and>
             (\<exists>p\<in>set (table s).
                 take 8 (md5 (py_lower (p_title p))) = take 8 (md5 (py_lower t))))"
    using check_duplicate_title by blast
next
  fix e
  assume "truthy (dict_get pd ''pmid'') \<and>
        execute md5 s (ByPmid (dict_get pd ''pmid'')) = Inl e"
  then show "\<not> check_duplicate md5 s pd" using check_duplicate_pmid_error by blast
next
  fix e
  assume "pmid_passed md5 s pd \<and> truthy (dict_get pd ''doi'') \<and>
        execute md5 s (ByDoi (dict_get pd ''doi'')) = Inl e"
  then show "\<not> check_duplicate md5 s pd" using check_duplicate_doi_error by blast
next
  fix t e
  assume "pmid_passed md5 s pd \<and> doi_passed md5 s pd \<and>
        dict_get_default pd ''title'' (PStr []) = PStr t \<and>
        execute md5 s (ByTitleHash (take 8 (md5 (py_lower t)))) = Inl e"
  then show "\<not> check_duplicate md5 s pd"
    using check_duplicate_title_error[of md5 s pd] by blast
qed

theorem check_duplicate_ordered_fail_open_witness:
  "check_duplicate toy_md5 stored_session [(''pmid'', PStr ''101''), (''title'', PStr ''Another title'')] \<and>
   \<not> check_duplicate toy_md5 (stored_session\<lparr>execute_error := (\<lambda>q. Some (DatabaseError ''connection lost''))\<rparr>)
        [(''pmid'', PStr ''101''), (''title'', PStr ''Another title'')] \<and>
   check_duplicate toy_md5 stored_session [(''pmid'', PNone), (''title'', PStr ''DIABETES Treatment Outcomes'')]"
proof -
  let ?pd = "[(''pmid'', PStr ''101''), (''title'', PStr ''Another title'')]"
  let ?down = "stored_session\<lparr>execute_error := (\<lambda>q. Some (DatabaseError ''connection lost''))\<rparr>"
  let ?pt = "[(''pmid'', PNone), (''title'', PStr ''DIABETES Treatment Outcomes'')]"
  have g: "dict_get ?pd ''pmid'' = PStr ''101''" by (simp add: dict_get_def)
  have 1: "check_duplicate toy_md5 stored_session ?pd"
    using check_duplicate_ordered_fail_open[of ?pd stored_session toy_md5, THEN conjunct1,
            THEN spec, of "''101''"] g
    by (simp add: stored_session_def diabetes_paper_def)
  have e: "execute toy_md5 ?down (ByPmid (dict_get ?pd ''pmid'')) = Inl (DatabaseError ''connection lost'')"
    by (simp add: execute_def stored_session_def)
  have 2: "\<not> check_duplicate toy_md5 ?down ?pd"
    using check_duplicate_ordered_fail_open[of ?pd ?down toy_md5, THEN conjunct2, THEN conjunct2,
            THEN conjunct2, THEN conjunct1, THEN spec, of "DatabaseError ''connection lost''"] g e
    by simp
  have p: "pmid_passed toy_md5 stored_session ?pt" "doi_passed toy_md5 stored_session ?pt"
    by (simp_all add: pmid_passed_def doi_passed_def dict_get_def)
  have t: "dict_get_default ?pt ''title'' (PStr []) = PStr ''DIABETES Treatment Outcomes''"
    by (simp add: dict_get_default_def)
  have l: "py_lower ''DIABETES Treatment Outcomes'' = py_lower ''Diabetes treatment outcomes''"
    by code_simp
  have 3: "check_duplicate toy_md5 stored_session ?pt"
    using check_duplicate_ordered_fail_open[of ?pt stored_session toy_md5, THEN conjunct2,
            THEN conjunct2, THEN conjunct1, THEN spec, of "''DIABETES Treatment Outcomes''"] p t
    by (simp add: stored_session_def diabetes_paper_def l)
  from 1 2 3 show ?thesis by simp
qed

section \<open>Proofs: embedding a paper for retrieval\<close>





















end
